theory Spec2Isabelle
  imports Main "HOL-Library.Word"
begin

section \<open>Exceptions\<close>

text \<open>
  The exception classes that \<^verbatim>\<open>synd/models/base.py\<close> raises itself
  (\<^verbatim>\<open>ValueError\<close>, \<^verbatim>\<open>TypeError\<close>) or meets through the interpreter
  (\<^verbatim>\<open>StopIteration\<close> from \<^verbatim>\<open>next\<close>, \<^verbatim>\<open>RuntimeError\<close> when a
  \<^verbatim>\<open>StopIteration\<close> escapes a generator body), and \<open>OtherError c\<close> for an exception
  of any other class \<open>c\<close> raised by a collaborator (a concrete model, a backmapper,
  \<^verbatim>\<open>pickle\<close>). Only the class is kept: the message text is not modelled.
\<close>

datatype exn = ValueError | TypeError | StopIteration | RuntimeError | OtherError string

section \<open>The model object\<close>

text \<open>
  A backmapper is a unary callable on trajectories; calling it may raise. Python is
  dynamically typed, so raw and mapped trajectories share the one value type \<open>'t\<close>.
  The annotation \<^verbatim>\<open>Callable\<close> of the source excludes \<open>None\<close> as a registered
  value.
\<close>

type_synonym 't backmapper = "'t \<Rightarrow> exn + 't"

text \<open>
  What iterating the iterable returned by \<^verbatim>\<open>generate_unmapped_trajectories\<close>
  does, request by request: \<open>Item traj rest\<close> hands out \<open>traj\<close> and continues as
  \<open>rest\<close>, \<open>Done\<close> is exhaustion, \<open>Fail e\<close> is a request that raises \<open>e\<close>
  (this covers an object that is not iterable). The iterable is finite.
\<close>

datatype 't raw_iter = Done | Fail exn | Item 't "'t raw_iter"

text \<open>
  An instance of a concrete subclass of \<^verbatim>\<open>SynDModel\<close>: the name of its class, the dict
  \<^verbatim>\<open>self._backmappers\<close>, and the subclass's implementation of the abstract method
  bound to this instance (\<open>'l\<close> is the length, \<open>'s\<close> an initial state, \<open>'k\<close> the
  keyword arguments passed through). The call of the abstract method may raise, or
  return an iterable.
\<close>

record ('l, 's, 'k, 't) SynDModel =
  py_class :: string
  backmappers :: "string \<rightharpoonup> 't backmapper"
  generate_unmapped_trajectories :: "'l \<Rightarrow> 's list \<Rightarrow> 'k \<Rightarrow> exn + 't raw_iter"

section \<open>The backmapper registry\<close>

text \<open>
  A method that mutates \<^verbatim>\<open>self\<close> returns its outcome (\<open>Inl\<close> the exception
  raised, \<open>Inr ()\<close> a normal return) together with \<^verbatim>\<open>self\<close> afterwards.
  \<^verbatim>\<open>
  def add_backmapper(self, backmapper, name):
      if name in self._backmappers:
          raise ValueError(msg)
      self._backmappers[name] = backmapper
  def remove_backmapper(self, name):
      if name not in self._backmappers:
          raise ValueError(msg)
      self._backmappers.pop(name)
  def get_backmapper(self, name):
      if name not in self._backmappers:
          raise ValueError(msg)
      return self._backmappers[name]
  \<close>
\<close>

definition add_backmapper ::
  "('l, 's, 'k, 't) SynDModel \<Rightarrow> 't backmapper \<Rightarrow> string
    \<Rightarrow> (exn + unit) \<times> ('l, 's, 'k, 't) SynDModel" where
  "add_backmapper self backmapper name =
     (if name \<in> dom (backmappers self) then (Inl ValueError, self)
      else (Inr (), self\<lparr>backmappers := (backmappers self)(name \<mapsto> backmapper)\<rparr>))"

definition remove_backmapper ::
  "('l, 's, 'k, 't) SynDModel \<Rightarrow> string \<Rightarrow> (exn + unit) \<times> ('l, 's, 'k, 't) SynDModel" where
  "remove_backmapper self name =
     (if name \<notin> dom (backmappers self) then (Inl ValueError, self)
      else (Inr (), self\<lparr>backmappers := (backmappers self)(name := None)\<rparr>))"

definition get_backmapper ::
  "('l, 's, 'k, 't) SynDModel \<Rightarrow> string \<Rightarrow> exn + 't backmapper" where
  "get_backmapper self name =
     (case backmappers self name of None \<Rightarrow> Inl ValueError | Some f \<Rightarrow> Inr f)"

text \<open>
  The property \<^verbatim>\<open>default_backmapper\<close>: reading is
  \<^verbatim>\<open>self._backmappers.get('default')\<close> (\<open>None\<close> when absent), writing is
  \<^verbatim>\<open>self.add_backmapper(value, 'default')\<close>.
\<close>

definition default_backmapper :: "('l, 's, 'k, 't) SynDModel \<Rightarrow> 't backmapper option" where
  "default_backmapper self = backmappers self ''default''"

definition set_default_backmapper ::
  "('l, 's, 'k, 't) SynDModel \<Rightarrow> 't backmapper
    \<Rightarrow> (exn + unit) \<times> ('l, 's, 'k, 't) SynDModel" where
  "set_default_backmapper self val = add_backmapper self val ''default''"

text \<open>
  \<^verbatim>\<open>
  def __init__(self, default_backmapper=None):
      self._backmappers = {}
      if default_backmapper is not None:
          self.default_backmapper = default_backmapper
  \<close>
  The class \<open>c\<close> being instantiated and its implementation \<open>g\<close> of the abstract
  method come with the concrete subclass. An exception in the constructor leaves no
  object.
\<close>

definition init ::
  "string \<Rightarrow> ('l \<Rightarrow> 's list \<Rightarrow> 'k \<Rightarrow> exn + 't raw_iter) \<Rightarrow> 't backmapper option
    \<Rightarrow> exn + ('l, 's, 'k, 't) SynDModel" where
  "init c g default_bm =
     (let self = \<lparr>py_class = c, backmappers = Map.empty, generate_unmapped_trajectories = g\<rparr>
      in case default_bm of
           None \<Rightarrow> Inr self
         | Some f \<Rightarrow>
             (case set_default_backmapper self f of
                (Inl e, _) \<Rightarrow> Inl e
              | (Inr _, self') \<Rightarrow> Inr self'))"

section \<open>The generation pipeline\<close>

text \<open>
  The result of one \<^verbatim>\<open>next\<close> on an iterator: a value, exhaustion
  (\<^verbatim>\<open>StopIteration\<close> as the end-of-iteration signal), or another exception.
\<close>

datatype 't outcome = Yield 't | Stop | Raise exn

text \<open>
  \<^verbatim>\<open>
  def generate_trajectories(self, length, initial_states, backmapper='default', **kwargs):
      if backmapper is not None:
          backmapper = self.get_backmapper(backmapper)
      for traj in self.generate_unmapped_trajectories(length, initial_states, **kwargs):
          if backmapper is not None:
              traj = backmapper(traj)
          yield traj
  \<close>
  The body contains \<^verbatim>\<open>yield\<close>, so the method is a generator function: a call
  binds the arguments and returns a generator object without running any of the
  body. The generator object is in one of three states: \<open>Created\<close> (not started; it
  holds the bound arguments), \<open>Suspended\<close> at the \<^verbatim>\<open>yield\<close> (it holds the local
  \<^verbatim>\<open>backmapper\<close>, by then \<open>None\<close> or a function, and the iterator of the
  \<^verbatim>\<open>for\<close> loop), or \<open>Finished\<close> (returned or raised).
\<close>

datatype ('l, 's, 'k, 't) generator =
    Created 'l "'s list" "string option" 'k
  | Suspended "'t backmapper option" "'t raw_iter"
  | Finished

text \<open>
  The parameter \<^verbatim>\<open>backmapper: Optional[str] = 'default'\<close>: the argument is
  omitted, or given as \<^verbatim>\<open>None\<close> or as a name.
\<close>

datatype bm_arg = Omitted | Given "string option"

fun bm_value :: "bm_arg \<Rightarrow> string option" where
  "bm_value Omitted = Some ''default''"
| "bm_value (Given b) = b"

definition generate_trajectories ::
  "'l \<Rightarrow> 's list \<Rightarrow> bm_arg \<Rightarrow> 'k \<Rightarrow> ('l, 's, 'k, 't) generator" where
  "generate_trajectories len initial_states backmapper kwargs =
     Created len initial_states (bm_value backmapper) kwargs"

text \<open>
  An exception that leaves a generator body reaches the caller of \<^verbatim>\<open>next\<close> as
  it is, except \<^verbatim>\<open>StopIteration\<close>, which the interpreter replaces by
  \<^verbatim>\<open>RuntimeError\<close> (PEP 479).
\<close>

definition escape :: "exn \<Rightarrow> exn" where
  "escape e = (if e = StopIteration then RuntimeError else e)"

text \<open>
  One turn of the \<^verbatim>\<open>for\<close> loop, up to the \<^verbatim>\<open>yield\<close>: request the next raw
  trajectory (a \<^verbatim>\<open>StopIteration\<close> from that request ends the loop), apply the
  local \<^verbatim>\<open>backmapper\<close> unless it is \<open>None\<close>, and yield.
\<close>

fun resume ::
  "'t backmapper option \<Rightarrow> 't raw_iter \<Rightarrow> 't outcome \<times> ('l, 's, 'k, 't) generator" where
  "resume backmapper Done = (Stop, Finished)"
| "resume backmapper (Fail e) =
     (if e = StopIteration then (Stop, Finished) else (Raise e, Finished))"
| "resume backmapper (Item traj rest) =
     (case backmapper of
        None \<Rightarrow> (Yield traj, Suspended backmapper rest)
      | Some f \<Rightarrow>
          (case f traj of
             Inl e \<Rightarrow> (Raise (escape e), Finished)
           | Inr traj' \<Rightarrow> (Yield traj', Suspended backmapper rest)))"

text \<open>
  \<^verbatim>\<open>next(gen)\<close>. The generator holds \<^verbatim>\<open>self\<close> by reference, so the first
  argument is the model as it is when \<^verbatim>\<open>next\<close> is called, not as it was when
  the generator was created. From \<open>Created\<close> the body runs from its first line:
  resolve the name, call the abstract method, enter the loop.
\<close>

fun gen_next ::
  "('l, 's, 'k, 't) SynDModel \<Rightarrow> ('l, 's, 'k, 't) generator
    \<Rightarrow> 't outcome \<times> ('l, 's, 'k, 't) generator" where
  "gen_next self (Created len initial_states backmapper kwargs) =
     (case (case backmapper of
              None \<Rightarrow> Inr None
            | Some name \<Rightarrow>
                (case get_backmapper self name of Inl e \<Rightarrow> Inl e | Inr f \<Rightarrow> Inr (Some f))) of
        Inl e \<Rightarrow> (Raise (escape e), Finished)
      | Inr bm \<Rightarrow>
          (case generate_unmapped_trajectories self len initial_states kwargs of
             Inl e \<Rightarrow> (Raise (escape e), Finished)
           | Inr it \<Rightarrow> resume bm it))"
| "gen_next self (Suspended backmapper it) = resume backmapper it"
| "gen_next self Finished = (Stop, Finished)"

text \<open>
  \<^verbatim>\<open>
  def generate_trajectory(self, length, initial_state, backmapper='default', **kwargs):
      return next(iter(self.generate_trajectories(
          length, initial_states=[initial_state], backmapper=backmapper, **kwargs)))
  \<close>
  An ordinary method: \<^verbatim>\<open>next\<close> runs before it returns, and the
  \<^verbatim>\<open>StopIteration\<close> of an exhausted generator propagates to the caller.
\<close>

definition generate_trajectory ::
  "('l, 's, 'k, 't) SynDModel \<Rightarrow> 'l \<Rightarrow> 's \<Rightarrow> bm_arg \<Rightarrow> 'k \<Rightarrow> exn + 't" where
  "generate_trajectory self len initial_state backmapper kwargs =
     (case fst (gen_next self
                  (generate_trajectories len [initial_state]
                     (Given (bm_value backmapper)) kwargs)) of
        Yield traj \<Rightarrow> Inr traj
      | Stop \<Rightarrow> Inl StopIteration
      | Raise e \<Rightarrow> Inl e)"

text \<open>
  The consumer \<^verbatim>\<open>list(gen)\<close> on a model that nobody mutates meanwhile: it
  calls \<^verbatim>\<open>next\<close> until exhaustion and returns what was yielded, or propagates
  the exception of the \<^verbatim>\<open>next\<close> that raised. \<open>gen_size\<close> bounds the number
  of trajectories a generator can still yield.
\<close>

fun gen_size :: "('l, 's, 'k, 't) SynDModel \<Rightarrow> ('l, 's, 'k, 't) generator \<Rightarrow> nat" where
  "gen_size self (Created len initial_states backmapper kwargs) =
     (case generate_unmapped_trajectories self len initial_states kwargs of
        Inl e \<Rightarrow> 0
      | Inr it \<Rightarrow> Suc (size it))"
| "gen_size self (Suspended backmapper it) = size it"
| "gen_size self Finished = 0"

lemma resume_smaller:
  "resume bm it = (Yield traj, g) \<Longrightarrow> gen_size self g < Suc (size it)"
  by (cases it) (auto split: option.splits sum.splits if_splits)

lemma gen_next_smaller:
  "gen_next self g = (Yield traj, g') \<Longrightarrow> gen_size self g' < gen_size self g"
proof (cases g)
  case (Created l ss b k)
  assume "gen_next self g = (Yield traj, g')"
  with Created show ?thesis
    by (auto split: option.splits sum.splits dest: resume_smaller)
next
  case (Suspended bm it)
  assume "gen_next self g = (Yield traj, g')"
  with Suspended show ?thesis
    by (cases it) (auto split: option.splits sum.splits if_splits)
next
  case Finished
  assume "gen_next self g = (Yield traj, g')"
  with Finished show ?thesis by simp
qed

function list_gen ::
  "('l, 's, 'k, 't) SynDModel \<Rightarrow> ('l, 's, 'k, 't) generator \<Rightarrow> exn + 't list" where
  "list_gen self g =
     (case gen_next self g of
        (Yield traj, g') \<Rightarrow>
          (case list_gen self g' of Inl e \<Rightarrow> Inl e | Inr trajs \<Rightarrow> Inr (traj # trajs))
      | (Stop, _) \<Rightarrow> Inr []
      | (Raise e, _) \<Rightarrow> Inl e)"
  by pat_completeness auto
termination
  by (relation "measure (\<lambda>(self, g). gen_size self g)") (auto dest: gen_next_smaller [OF sym])

declare list_gen.simps [simp del]

text \<open>
  A consumer that calls \<^verbatim>\<open>next\<close> once per element of \<open>selves\<close>, the model
  being in that state at that call: whatever mutates the model between two requests is
  the difference between two consecutive elements.
\<close>

fun gen_nexts ::
  "('l, 's, 'k, 't) SynDModel list \<Rightarrow> ('l, 's, 'k, 't) generator \<Rightarrow> 't outcome list" where
  "gen_nexts [] g = []"
| "gen_nexts (self # selves) g =
     (case gen_next self g of (out, g') \<Rightarrow> out # gen_nexts selves g')"

text \<open>A generator whose body has begun to run: every state but \<open>Created\<close>.\<close>

fun started :: "('l, 's, 'k, 't) generator \<Rightarrow> bool" where
  "started (Created len initial_states backmapper kwargs) = False"
| "started (Suspended backmapper it) = True"
| "started Finished = True"

text \<open>The iterable that hands out the trajectories of a list, then is exhausted.\<close>

fun raw_of_list :: "'t list \<Rightarrow> 't raw_iter" where
  "raw_of_list [] = Done"
| "raw_of_list (traj # trajs) = Item traj (raw_of_list trajs)"

section \<open>Persistence\<close>

text \<open>
  What \<^verbatim>\<open>pickle.loads\<close> can return: a model instance, or an object of some
  other class (named). \<^verbatim>\<open>type(obj)\<close> is \<open>type_of obj\<close>.
\<close>

datatype ('l, 's, 'k, 't) pyobj = ModelObj "('l, 's, 'k, 't) SynDModel" | OtherObj string

fun type_of :: "('l, 's, 'k, 't) pyobj \<Rightarrow> string" where
  "type_of (ModelObj m) = py_class m"
| "type_of (OtherObj c) = c"

text \<open>
  \<^verbatim>\<open>isinstance(obj, cls)\<close>: the class of \<open>obj\<close> is \<open>cls\<close>, or a subclass of
  it. The relation \<open>subclass c d\<close> (\<open>c\<close> is a proper or registered subclass of
  \<open>d\<close>) belongs to the program that defines the concrete classes and is a parameter.
\<close>

definition isinstance ::
  "(string \<Rightarrow> string \<Rightarrow> bool) \<Rightarrow> ('l, 's, 'k, 't) pyobj \<Rightarrow> string \<Rightarrow> bool" where
  "isinstance subclass obj cls = (type_of obj = cls \<or> subclass (type_of obj) cls)"

type_synonym bytes = "8 word list"

text \<open>
  \<^verbatim>\<open>
  def serialize(self):
      return pickle.dumps(self)
  @classmethod
  def deserialize(cls, serialized):
      obj = pickle.loads(serialized)
      if not isinstance(obj, cls):
          raise TypeError(f'object must be an instance of {cls}')
      return obj
  \<close>
  \<^verbatim>\<open>pickle\<close> is the standard library's, not this repository's: \<open>dumps\<close> and
  \<open>loads\<close> are parameters, and each may raise.
\<close>

definition serialize ::
  "(('l, 's, 'k, 't) pyobj \<Rightarrow> exn + bytes) \<Rightarrow> ('l, 's, 'k, 't) pyobj \<Rightarrow> exn + bytes" where
  "serialize dumps self = dumps self"

definition deserialize ::
  "(bytes \<Rightarrow> exn + ('l, 's, 'k, 't) pyobj) \<Rightarrow> (string \<Rightarrow> string \<Rightarrow> bool) \<Rightarrow> string \<Rightarrow> bytes
    \<Rightarrow> exn + ('l, 's, 'k, 't) pyobj" where
  "deserialize loads subclass cls serialized =
     (case loads serialized of
        Inl e \<Rightarrow> Inl e
      | Inr obj \<Rightarrow> if \<not> isinstance subclass obj cls then Inl TypeError else Inr obj)"

text \<open>The expression \<^verbatim>\<open>type(m).deserialize(m.serialize())\<close>.\<close>

definition round_trip ::
  "(('l, 's, 'k, 't) pyobj \<Rightarrow> exn + bytes) \<Rightarrow> (bytes \<Rightarrow> exn + ('l, 's, 'k, 't) pyobj)
    \<Rightarrow> (string \<Rightarrow> string \<Rightarrow> bool) \<Rightarrow> ('l, 's, 'k, 't) pyobj \<Rightarrow> exn + ('l, 's, 'k, 't) pyobj" where
  "round_trip dumps loads subclass m =
     (case serialize dumps m of
        Inl e \<Rightarrow> Inl e
      | Inr serialized \<Rightarrow> deserialize loads subclass (type_of m) serialized)"

text \<open>
  The contract of \<^verbatim>\<open>pickle\<close> as a serialization mechanism: from the bytes that
  \<^verbatim>\<open>pickle.dumps\<close> returns for an object, \<^verbatim>\<open>pickle.loads\<close> reconstructs that
  object. It says nothing about which objects \<^verbatim>\<open>pickle.dumps\<close> accepts.
\<close>

definition codec ::
  "(('l, 's, 'k, 't) pyobj \<Rightarrow> exn + bytes) \<Rightarrow> (bytes \<Rightarrow> exn + ('l, 's, 'k, 't) pyobj) \<Rightarrow> bool" where
  "codec dumps loads = (\<forall>obj serialized. dumps obj = Inr serialized \<longrightarrow> loads serialized = Inr obj)"

section \<open>Example instances\<close>

text \<open>
  A concrete model for the examples: states are numbers, a trajectory is the list of
  the three states counted up from the initial one, whatever the length asked for.
  \<open>reverse\<close> is the backmapper \<^verbatim>\<open>lambda t: t[::-1]\<close>, \<open>double\<close> is a function
  defined at module level that maps every state to its double. \<open>bare_model\<close> has an empty registry, \<open>reversing_model\<close> and
  \<open>doubling_model\<close> have a default backmapper, and \<open>silent_model\<close> is a model
  whose generation yields nothing.
\<close>

definition count_up :: "nat \<Rightarrow> nat list \<Rightarrow> unit \<Rightarrow> exn + nat list raw_iter" where
  "count_up len initial_states kwargs =
     Inr (raw_of_list (map (\<lambda>s. [s, s + 1, s + 2]) initial_states))"

definition reverse :: "nat list backmapper" where
  "reverse traj = Inr (rev traj)"

definition double :: "nat list backmapper" where
  "double traj = Inr (map (\<lambda>s. 2 * s) traj)"

definition bare_model :: "(nat, nat, unit, nat list) SynDModel" where
  "bare_model =
     \<lparr>py_class = ''CountUp'', backmappers = Map.empty,
      generate_unmapped_trajectories = count_up\<rparr>"

definition silent_model :: "(nat, nat, unit, nat list) SynDModel" where
  "silent_model =
     \<lparr>py_class = ''Silent'', backmappers = Map.empty,
      generate_unmapped_trajectories = (\<lambda>len initial_states kwargs. Inr Done)\<rparr>"

definition reversing_model :: "(nat, nat, unit, nat list) SynDModel" where
  "reversing_model =
     \<lparr>py_class = ''CountUp'', backmappers = [''default'' \<mapsto> reverse],
      generate_unmapped_trajectories = count_up\<rparr>"

definition doubling_model :: "(nat, nat, unit, nat list) SynDModel" where
  "doubling_model =
     \<lparr>py_class = ''CountUp'', backmappers = [''default'' \<mapsto> double],
      generate_unmapped_trajectories = count_up\<rparr>"

text \<open>
  A serialization mechanism for the examples. \<^verbatim>\<open>pickle\<close> stores a function as a
  reference to its qualified name: it accepts \<open>doubling_model\<close>, whose backmapper
  \<open>double\<close> is a function defined by name at module level, and it rejects every
  other object here with \<^verbatim>\<open>PicklingError\<close>, in particular \<open>reversing_model\<close>,
  whose backmapper is a \<^verbatim>\<open>lambda\<close>.
\<close>

definition example_dumps :: "(nat, nat, unit, nat list) pyobj \<Rightarrow> exn + bytes" where
  "example_dumps obj =
     (if obj = ModelObj doubling_model then Inr [128, 4] else Inl (OtherError ''PicklingError''))"

definition example_loads :: "bytes \<Rightarrow> exn + (nat, nat, unit, nat list) pyobj" where
  "example_loads serialized =
     (if serialized = [128, 4] then Inr (ModelObj doubling_model)
      else Inl (OtherError ''UnpicklingError''))"

section \<open>Consuming a generator\<close>

lemma list_gen_done: "list_gen self (Suspended bm Done) = Inr []"
  by (simp add: list_gen.simps [of self "Suspended bm Done"])

lemma list_gen_item_unmapped:
  "list_gen self (Suspended None (Item traj rest)) =
     (case list_gen self (Suspended None rest) of
        Inl e \<Rightarrow> Inl e
      | Inr trajs \<Rightarrow> Inr (traj # trajs))"
  by (simp add: list_gen.simps [of self "Suspended None (Item traj rest)"])

lemma list_gen_item_mapped:
  "f traj = Inr traj' \<Longrightarrow>
     list_gen self (Suspended (Some f) (Item traj rest)) =
       (case list_gen self (Suspended (Some f) rest) of
          Inl e \<Rightarrow> Inl e
        | Inr trajs \<Rightarrow> Inr (traj' # trajs))"
  by (simp add: list_gen.simps [of self "Suspended (Some f) (Item traj rest)"])

lemma list_gen_raw_unmapped:
  "list_gen self (Suspended None (raw_of_list trajs)) = Inr trajs"
  by (induction trajs) (simp_all add: list_gen_done list_gen_item_unmapped)

lemma list_gen_raw_mapped:
  "map f raws = map Inr outs \<Longrightarrow>
     list_gen self (Suspended (Some f) (raw_of_list raws)) = Inr outs"
proof (induction raws arbitrary: outs)
  case Nil
  then show ?case by (simp add: list_gen_done)
next
  case (Cons r rs)
  then obtain u us where outs: "outs = u # us" by (cases outs) auto
  with Cons.prems have "f r = Inr u" and "map f rs = map Inr us" by auto
  with Cons.IH outs show ?case by (simp add: list_gen_item_mapped)
qed

lemma list_gen_created:
  "gen_next self (Created len ss b kw) = resume bm it \<Longrightarrow>
     list_gen self (Created len ss b kw) = list_gen self (Suspended bm it)"
  by (simp add: list_gen.simps [of self "Created len ss b kw"]
        list_gen.simps [of self "Suspended bm it"])

lemma list_gen_stop: "gen_next self g = (Stop, g') \<Longrightarrow> list_gen self g = Inr []"
  by (simp add: list_gen.simps [of self g])

lemma list_gen_raise: "gen_next self g = (Raise e, g') \<Longrightarrow> list_gen self g = Inl e"
  by (simp add: list_gen.simps [of self g])

lemma resume_started: "started (snd (resume bm it :: 't outcome \<times> ('l, 's, 'k, 't) generator))"
  by (cases it) (auto split: option.splits sum.splits)

lemma gen_next_started: "started (snd (gen_next self g))"
  by (cases g) (auto simp: resume_started split: option.splits sum.splits)

lemma gen_next_of_started: "started g \<Longrightarrow> gen_next self g = gen_next self' g"
  by (cases g) simp_all

lemma gen_nexts_of_started:
  "length selves = length selves' \<Longrightarrow> started g \<Longrightarrow> gen_nexts selves g = gen_nexts selves' g"
proof (induction selves selves' arbitrary: g rule: list_induct2)
  case Nil
  show ?case by simp
next
  case (Cons self selves self' selves')
  from Cons.prems have same: "gen_next self g = gen_next self' g" by (rule gen_next_of_started)
  have "started (snd (gen_next self' g))" by (rule gen_next_started)
  then have "gen_nexts selves (snd (gen_next self' g)) = gen_nexts selves' (snd (gen_next self' g))"
    by (rule Cons.IH)
  with same show ?case by (simp add: case_prod_unfold)
qed

lemma gen_nexts_raw_mapped:
  "map f raws = map Inr outs \<Longrightarrow> length selves = length raws \<Longrightarrow>
     gen_nexts selves (Suspended (Some f) (raw_of_list raws)) = map Yield outs"
proof (induction raws arbitrary: outs selves)
  case Nil
  then show ?case by simp
next
  case (Cons r rs)
  from Cons.prems(1) obtain u us where outs: "outs = u # us" by (cases outs) auto
  from Cons.prems(2) obtain s ss where selves: "selves = s # ss" by (cases selves) auto
  from Cons.prems outs selves have "f r = Inr u" and "map f rs = map Inr us"
    and "length ss = length rs" by auto
  with Cons.IH [of us ss] outs selves show ?case by simp
qed

lemma returns_on_all:
  "\<forall>r \<in> set raws. \<exists>u. f r = Inr u \<Longrightarrow> \<exists>outs. map f raws = map Inr outs"
proof (induction raws)
  case Nil
  show ?case by simp
next
  case (Cons r rs)
  then obtain u us where "f r = Inr u" and "map f rs = map Inr us" by auto
  then have "map f (r # rs) = map Inr (u # us)" by simp
  then show ?case by blast
qed

lemma mapped_positions:
  assumes "map f raws = map Inr outs"
  shows "length outs = length raws \<and> (\<forall>i < length raws. f (raws ! i) = Inr (outs ! i))"
proof -
  from assms have len: "length outs = length raws" by (metis length_map)
  have "f (raws ! i) = Inr (outs ! i)" if "i < length raws" for i
  proof -
    from that have "f (raws ! i) = map f raws ! i" by simp
    also have "\<dots> = map Inr outs ! i" by (simp only: assms)
    also from that len have "\<dots> = Inr (outs ! i)" by simp
    finally show ?thesis .
  qed
  with len show ?thesis by simp
qed

lemma get_backmapper_absent:
  "name \<notin> dom (backmappers self) \<Longrightarrow> get_backmapper self name = Inl ValueError"
  by (simp add: get_backmapper_def dom_def)

lemma gen_next_unresolved:
  "name \<notin> dom (backmappers self) \<Longrightarrow>
     gen_next self (Created len ss (Some name) kw) = (Raise ValueError, Finished)"
  by (simp add: get_backmapper_absent escape_def)

section \<open>Pipeline composition\<close>

text \<open>
  Claim C1. On a model whose default backmapper is \<open>f\<close> and whose
  \<^verbatim>\<open>generate_unmapped_trajectories(length, initial_states)\<close> yields the raw
  trajectories \<open>[T1, T2]\<close>, \<^verbatim>\<open>list(m.generate_trajectories(length, initial_states))\<close>
  is \<open>[f(T1), f(T2)]\<close> in that order, and with \<^verbatim>\<open>backmapper=None\<close> it is
  \<open>[T1, T2]\<close> unchanged. (\<open>f(T1)\<close> and \<open>f(T2)\<close> are the values \<open>f\<close> returns.)
\<close>

theorem pipeline_composition:
  assumes "default_backmapper self = Some f"
    and "generate_unmapped_trajectories self len initial_states kwargs = Inr (raw_of_list [T1, T2])"
    and "f T1 = Inr U1" and "f T2 = Inr U2"
  shows "list_gen self (generate_trajectories len initial_states Omitted kwargs) = Inr [U1, U2]
       \<and> list_gen self (generate_trajectories len initial_states (Given None) kwargs) = Inr [T1, T2]"
proof -
  from assms(1) have reg: "get_backmapper self ''default'' = Inr f"
    by (simp add: default_backmapper_def get_backmapper_def)
  from assms(3,4) have mapped: "map f [T1, T2] = map Inr [U1, U2]" by simp
  have "gen_next self (Created len initial_states (Some ''default'') kwargs)
      = resume (Some f) (raw_of_list [T1, T2])"
    using reg assms(2) by simp
  then have "list_gen self (Created len initial_states (Some ''default'') kwargs) = Inr [U1, U2]"
    using list_gen_raw_mapped [OF mapped] by (simp only: list_gen_created)
  moreover
  have "gen_next self (Created len initial_states None kwargs)
      = resume None (raw_of_list [T1, T2])"
    using assms(2) by simp
  then have "list_gen self (Created len initial_states None kwargs) = Inr [T1, T2]"
    using list_gen_raw_unmapped [of self "[T1, T2]"] by (simp only: list_gen_created)
  ultimately show ?thesis by (simp add: generate_trajectories_def)
qed

theorem pipeline_composition_witness:
  "list_gen reversing_model (generate_trajectories 3 [2, 5] Omitted ()) = Inr [[4, 3, 2], [7, 6, 5]]
   \<and> list_gen reversing_model (generate_trajectories 3 [2, 5] (Given None) ()) = Inr [[2, 3, 4], [5, 6, 7]]"
  using pipeline_composition [of reversing_model reverse 3 "[2, 5]" "()" "[2, 3, 4]" "[5, 6, 7]" "[4, 3, 2]" "[7, 6, 5]"]
  by (simp add: reversing_model_def default_backmapper_def count_up_def reverse_def)

text \<open>
  Claim C5, as the code has it. \<^verbatim>\<open>generate_trajectories\<close> yields exactly the
  trajectories that \<^verbatim>\<open>generate_unmapped_trajectories\<close> yields for the given
  initial states, as many and in the order produced, whether a backmapper is applied or
  not: the raw trajectories themselves with \<^verbatim>\<open>backmapper=None\<close>, and position by
  position the values the backmapper returns on them when the name resolves and the
  function returns on each. The pipeline neither counts the initial states nor looks at
  them: the number is \<open>N\<close> and the order that of the input states exactly when the
  concrete model's raw generation has them so.
\<close>

theorem order_preservation:
  assumes "generate_unmapped_trajectories self len initial_states kwargs = Inr (raw_of_list raws)"
  shows "(bm_value backmapper = None
            \<longrightarrow> list_gen self (generate_trajectories len initial_states backmapper kwargs)
                  = Inr raws)
       \<and> (bm_value backmapper = Some name \<and> backmappers self name = Some f
            \<and> (\<forall>r \<in> set raws. \<exists>u. f r = Inr u)
            \<longrightarrow> (\<exists>outs.
                  list_gen self (generate_trajectories len initial_states backmapper kwargs)
                    = Inr outs
                  \<and> length outs = length raws
                  \<and> (\<forall>i < length raws. f (raws ! i) = Inr (outs ! i))))"
proof (intro conjI impI)
  assume none: "bm_value backmapper = None"
  have "gen_next self (Created len initial_states None kwargs) = resume None (raw_of_list raws)"
    using assms by simp
  then have "list_gen self (Created len initial_states None kwargs) = Inr raws"
    by (simp only: list_gen_created list_gen_raw_unmapped)
  with none show "list_gen self (generate_trajectories len initial_states backmapper kwargs)
      = Inr raws"
    by (simp add: generate_trajectories_def)
next
  assume a: "bm_value backmapper = Some name \<and> backmappers self name = Some f
      \<and> (\<forall>r \<in> set raws. \<exists>u. f r = Inr u)"
  then obtain outs where mapped: "map f raws = map Inr outs"
    using returns_on_all [of raws f] by blast
  have "gen_next self (Created len initial_states (Some name) kwargs)
      = resume (Some f) (raw_of_list raws)"
    using assms a by (simp add: get_backmapper_def)
  then have "list_gen self (Created len initial_states (Some name) kwargs) = Inr outs"
    using list_gen_raw_mapped [OF mapped] by (simp only: list_gen_created)
  with a have "list_gen self (generate_trajectories len initial_states backmapper kwargs)
      = Inr outs"
    by (simp add: generate_trajectories_def)
  with mapped_positions [OF mapped]
  show "\<exists>outs. list_gen self (generate_trajectories len initial_states backmapper kwargs)
          = Inr outs
        \<and> length outs = length raws
        \<and> (\<forall>i < length raws. f (raws ! i) = Inr (outs ! i))"
    by blast
qed

theorem order_preservation_witness:
  "list_gen reversing_model (generate_trajectories 3 [2, 5] Omitted ())
     = Inr [[4, 3, 2], [7, 6, 5]]
   \<and> list_gen reversing_model (generate_trajectories 3 [2, 5] (Given None) ())
     = Inr [[2, 3, 4], [5, 6, 7]]"
proof -
  let ?raws = "[[2, 3, 4], [5, 6, 7 :: nat]]"
  have raw: "generate_unmapped_trajectories reversing_model 3 [2, 5] ()
      = Inr (raw_of_list ?raws)"
    by (simp add: reversing_model_def count_up_def)
  have sel: "bm_value Omitted = Some ''default''
      \<and> backmappers reversing_model ''default'' = Some reverse
      \<and> (\<forall>r \<in> set ?raws. \<exists>u. reverse r = Inr u)"
    by (simp add: reversing_model_def reverse_def)
  note inst = order_preservation [OF raw, of Omitted "''default''" reverse]
  note inst' = order_preservation [OF raw, of "Given None" "''default''" reverse]
  from inst sel obtain outs
    where run: "list_gen reversing_model (generate_trajectories 3 [2, 5] Omitted ()) = Inr outs"
      and len: "length outs = length ?raws"
      and pos: "\<forall>i < length ?raws. reverse (?raws ! i) = Inr (outs ! i)"
    by blast
  from len obtain a b where outs: "outs = [a, b]"
    by (cases outs; cases "tl outs") auto
  have "(0::nat) < length ?raws" and "(1::nat) < length ?raws" by simp_all
  with pos have "reverse (?raws ! 0) = Inr (outs ! 0)" and "reverse (?raws ! 1) = Inr (outs ! 1)"
    by blast+
  with outs have "a = [4, 3, 2]" and "b = [7, 6, 5]" by (simp_all add: reverse_def)
  with run outs
  have 1: "list_gen reversing_model (generate_trajectories 3 [2, 5] Omitted ())
     = Inr [[4, 3, 2], [7, 6, 5]]"
    by simp
  from inst' have 2: "list_gen reversing_model (generate_trajectories 3 [2, 5] (Given None) ())
     = Inr [[2, 3, 4], [5, 6, 7]]"
    by simp
  from 1 2 show ?thesis by simp
qed

text \<open>
  The claim as worded, exactly \<open>N\<close> trajectories for every model, fails: a model whose
  raw generation yields nothing gives no trajectory for one initial state, and with
  default arguments on a model that has no default backmapper the two initial states
  give a \<^verbatim>\<open>ValueError\<close> and no trajectory.
\<close>

theorem order_preservation_counterexample:
  "list_gen silent_model (generate_trajectories 3 [2] (Given None) ()) = Inr []
   \<and> list_gen bare_model (generate_trajectories 3 [2, 5] Omitted ()) = Inl ValueError"
proof -
  have "gen_next silent_model (Created 3 [2] None ()) = (Stop, Finished)"
    by (simp add: silent_model_def)
  then have 1: "list_gen silent_model (Created 3 [2] None ()) = Inr []"
    by (rule list_gen_stop)
  have "''default'' \<notin> dom (backmappers bare_model)" by (simp add: bare_model_def)
  then have "gen_next bare_model (Created 3 [2, 5] (Some ''default'') ())
      = (Raise ValueError, Finished)"
    by (rule gen_next_unresolved)
  then have 2: "list_gen bare_model (Created 3 [2, 5] (Some ''default'') ()) = Inl ValueError"
    by (rule list_gen_raise)
  from 1 2 show ?thesis by (simp add: generate_trajectories_def)
qed

section \<open>Registry properties\<close>

text \<open>
  Claim C2. \<^verbatim>\<open>add_backmapper(fn, name)\<close> with a name already in the registry
  raises \<^verbatim>\<open>ValueError\<close> and leaves the model, hence the existing entry and the
  rest of the registry, as it was; \<^verbatim>\<open>remove_backmapper(name)\<close> with a name that
  is absent raises \<^verbatim>\<open>ValueError\<close> and leaves the model as it was. Otherwise
  \<^verbatim>\<open>add_backmapper\<close> inserts exactly the entry \<open>name \<mapsto> fn\<close> and
  \<^verbatim>\<open>remove_backmapper\<close> deletes exactly the entry of \<open>name\<close>: every other name
  resolves as before, and nothing else of the model changes.
\<close>

theorem registry_guards:
  "(name \<in> dom (backmappers self) \<longrightarrow>
      add_backmapper self fn name = (Inl ValueError, self))
   \<and> (name \<notin> dom (backmappers self) \<longrightarrow>
      remove_backmapper self name = (Inl ValueError, self))
   \<and> (name \<notin> dom (backmappers self) \<longrightarrow>
      (\<exists>self'. add_backmapper self fn name = (Inr (), self')
         \<and> backmappers self' name = Some fn
         \<and> dom (backmappers self') = insert name (dom (backmappers self))
         \<and> (\<forall>n. n \<noteq> name \<longrightarrow> backmappers self' n = backmappers self n)
         \<and> py_class self' = py_class self
         \<and> generate_unmapped_trajectories self' = generate_unmapped_trajectories self))
   \<and> (name \<in> dom (backmappers self) \<longrightarrow>
      (\<exists>self'. remove_backmapper self name = (Inr (), self')
         \<and> backmappers self' name = None
         \<and> dom (backmappers self') = dom (backmappers self) - {name}
         \<and> (\<forall>n. n \<noteq> name \<longrightarrow> backmappers self' n = backmappers self n)
         \<and> py_class self' = py_class self
         \<and> generate_unmapped_trajectories self' = generate_unmapped_trajectories self))"
proof (intro conjI impI)
  assume "name \<in> dom (backmappers self)"
  then show "add_backmapper self fn name = (Inl ValueError, self)"
    by (simp add: add_backmapper_def)
next
  assume "name \<notin> dom (backmappers self)"
  then show "remove_backmapper self name = (Inl ValueError, self)"
    by (simp add: remove_backmapper_def)
next
  assume absent: "name \<notin> dom (backmappers self)"
  let ?self' = "self\<lparr>backmappers := (backmappers self)(name \<mapsto> fn)\<rparr>"
  from absent have "add_backmapper self fn name = (Inr (), ?self')"
    by (simp add: add_backmapper_def)
  moreover have "backmappers ?self' name = Some fn" by simp
  moreover have "dom (backmappers ?self') = insert name (dom (backmappers self))" by simp
  moreover have "\<forall>n. n \<noteq> name \<longrightarrow> backmappers ?self' n = backmappers self n" by simp
  moreover have "py_class ?self' = py_class self" by simp
  moreover have "generate_unmapped_trajectories ?self' = generate_unmapped_trajectories self"
    by simp
  ultimately show "\<exists>self'. add_backmapper self fn name = (Inr (), self')
         \<and> backmappers self' name = Some fn
         \<and> dom (backmappers self') = insert name (dom (backmappers self))
         \<and> (\<forall>n. n \<noteq> name \<longrightarrow> backmappers self' n = backmappers self n)
         \<and> py_class self' = py_class self
         \<and> generate_unmapped_trajectories self' = generate_unmapped_trajectories self"
    by blast
next
  assume present: "name \<in> dom (backmappers self)"
  let ?self' = "self\<lparr>backmappers := (backmappers self)(name := None)\<rparr>"
  from present have "remove_backmapper self name = (Inr (), ?self')"
    by (simp add: remove_backmapper_def)
  moreover have "backmappers ?self' name = None" by simp
  moreover have "dom (backmappers ?self') = dom (backmappers self) - {name}" by simp
  moreover have "\<forall>n. n \<noteq> name \<longrightarrow> backmappers ?self' n = backmappers self n" by simp
  moreover have "py_class ?self' = py_class self" by simp
  moreover have "generate_unmapped_trajectories ?self' = generate_unmapped_trajectories self"
    by simp
  ultimately show "\<exists>self'. remove_backmapper self name = (Inr (), self')
         \<and> backmappers self' name = None
         \<and> dom (backmappers self') = dom (backmappers self) - {name}
         \<and> (\<forall>n. n \<noteq> name \<longrightarrow> backmappers self' n = backmappers self n)
         \<and> py_class self' = py_class self
         \<and> generate_unmapped_trajectories self' = generate_unmapped_trajectories self"
    by blast
qed

theorem registry_guards_witness:
  "add_backmapper reversing_model double ''default'' = (Inl ValueError, reversing_model)
   \<and> backmappers reversing_model ''default'' = Some reverse
   \<and> remove_backmapper bare_model ''default'' = (Inl ValueError, bare_model)
   \<and> fst (add_backmapper bare_model double ''twice'') = Inr ()
   \<and> backmappers (snd (add_backmapper bare_model double ''twice'')) ''twice'' = Some double
   \<and> dom (backmappers (snd (add_backmapper bare_model double ''twice''))) = {''twice''}
   \<and> fst (remove_backmapper reversing_model ''default'') = Inr ()
   \<and> dom (backmappers (snd (remove_backmapper reversing_model ''default''))) = {}"
proof -
  have present: "''default'' \<in> dom (backmappers reversing_model)"
    by (simp add: reversing_model_def)
  have absent: "''default'' \<notin> dom (backmappers bare_model)"
    and absent': "''twice'' \<notin> dom (backmappers bare_model)"
    by (simp_all add: bare_model_def)
  note guards = registry_guards [of "''default''" reversing_model double]
  note guards' = registry_guards [of "''default''" bare_model double]
  note guards'' = registry_guards [of "''twice''" bare_model double]
  have 1: "add_backmapper reversing_model double ''default'' = (Inl ValueError, reversing_model)"
    using guards present by (elim conjE) simp
  have 2: "backmappers reversing_model ''default'' = Some reverse"
    by (simp add: reversing_model_def)
  have 3: "remove_backmapper bare_model ''default'' = (Inl ValueError, bare_model)"
    using guards' absent by (elim conjE) simp
  have "\<exists>self'. add_backmapper bare_model double ''twice'' = (Inr (), self')
         \<and> backmappers self' ''twice'' = Some double
         \<and> dom (backmappers self') = insert ''twice'' (dom (backmappers bare_model))
         \<and> (\<forall>n. n \<noteq> ''twice'' \<longrightarrow> backmappers self' n = backmappers bare_model n)
         \<and> py_class self' = py_class bare_model
         \<and> generate_unmapped_trajectories self' = generate_unmapped_trajectories bare_model"
    using guards'' absent' by (elim conjE) simp
  then obtain self' where "add_backmapper bare_model double ''twice'' = (Inr (), self')"
    and "backmappers self' ''twice'' = Some double"
    and "dom (backmappers self') = insert ''twice'' (dom (backmappers bare_model))"
    by (elim exE conjE)
  then have 4: "fst (add_backmapper bare_model double ''twice'') = Inr ()
      \<and> backmappers (snd (add_backmapper bare_model double ''twice'')) ''twice'' = Some double
      \<and> dom (backmappers (snd (add_backmapper bare_model double ''twice''))) = {''twice''}"
    by (simp add: bare_model_def)
  have "\<exists>self'. remove_backmapper reversing_model ''default'' = (Inr (), self')
         \<and> backmappers self' ''default'' = None
         \<and> dom (backmappers self') = dom (backmappers reversing_model) - {''default''}
         \<and> (\<forall>n. n \<noteq> ''default'' \<longrightarrow> backmappers self' n = backmappers reversing_model n)
         \<and> py_class self' = py_class reversing_model
         \<and> generate_unmapped_trajectories self' = generate_unmapped_trajectories reversing_model"
    using guards present by (elim conjE) simp
  then obtain self'' where "remove_backmapper reversing_model ''default'' = (Inr (), self'')"
    and "dom (backmappers self'') = dom (backmappers reversing_model) - {''default''}"
    by (elim exE conjE)
  then have 5: "fst (remove_backmapper reversing_model ''default'') = Inr ()
      \<and> dom (backmappers (snd (remove_backmapper reversing_model ''default''))) = {}"
    by (simp add: reversing_model_def)
  from 1 2 3 4 5 show ?thesis by simp
qed

text \<open>
  Claim C3. The life cycle of the default backmapper: a model constructed with the
  initial default backmapper \<open>f\<close> reads \<open>f\<close> from \<^verbatim>\<open>default_backmapper\<close>; then
  \<^verbatim>\<open>add_backmapper(f2, "default")\<close> raises \<^verbatim>\<open>ValueError\<close> and changes nothing;
  after \<^verbatim>\<open>remove_backmapper("default")\<close> the property reads \<open>None\<close>, and
  \<^verbatim>\<open>add_backmapper(f2, "default")\<close> now succeeds and the property reads \<open>f2\<close>.
  Writing the property is \<^verbatim>\<open>add_backmapper(value, "default")\<close>.
\<close>

theorem default_lifecycle:
  "(\<exists>self0 self1 self2.
      init c g (Some f) = Inr self0
      \<and> default_backmapper self0 = Some f
      \<and> add_backmapper self0 f2 ''default'' = (Inl ValueError, self0)
      \<and> remove_backmapper self0 ''default'' = (Inr (), self1)
      \<and> default_backmapper self1 = None
      \<and> add_backmapper self1 f2 ''default'' = (Inr (), self2)
      \<and> default_backmapper self2 = Some f2)
   \<and> set_default_backmapper self val = add_backmapper self val ''default''"
proof -
  let ?empty = "\<lparr>py_class = c, backmappers = Map.empty, generate_unmapped_trajectories = g\<rparr>"
  let ?self0 = "?empty\<lparr>backmappers := [''default'' \<mapsto> f]\<rparr>"
  let ?self1 = "?self0\<lparr>backmappers := (backmappers ?self0)(''default'' := None)\<rparr>"
  let ?self2 = "?self1\<lparr>backmappers := (backmappers ?self1)(''default'' \<mapsto> f2)\<rparr>"
  have "init c g (Some f) = Inr ?self0"
    by (simp add: init_def set_default_backmapper_def add_backmapper_def)
  moreover have "default_backmapper ?self0 = Some f"
    by (simp add: default_backmapper_def)
  moreover have "add_backmapper ?self0 f2 ''default'' = (Inl ValueError, ?self0)"
    by (simp add: add_backmapper_def)
  moreover have "remove_backmapper ?self0 ''default'' = (Inr (), ?self1)"
    by (simp add: remove_backmapper_def)
  moreover have "default_backmapper ?self1 = None"
    by (simp add: default_backmapper_def)
  moreover have "add_backmapper ?self1 f2 ''default'' = (Inr (), ?self2)"
    by (simp add: add_backmapper_def)
  moreover have "default_backmapper ?self2 = Some f2"
    by (simp add: default_backmapper_def)
  ultimately have "\<exists>self0 self1 self2.
      init c g (Some f) = Inr self0
      \<and> default_backmapper self0 = Some f
      \<and> add_backmapper self0 f2 ''default'' = (Inl ValueError, self0)
      \<and> remove_backmapper self0 ''default'' = (Inr (), self1)
      \<and> default_backmapper self1 = None
      \<and> add_backmapper self1 f2 ''default'' = (Inr (), self2)
      \<and> default_backmapper self2 = Some f2"
    by blast
  then show ?thesis by (simp add: set_default_backmapper_def)
qed

section \<open>Name resolution and the single-result method\<close>

text \<open>
  Claim C4, as the code has it. With a backmapper name that is not in the registry, the
  call of \<^verbatim>\<open>generate_trajectories\<close> returns a generator that has not started and
  raises nothing; the \<^verbatim>\<open>ValueError\<close> of the failed resolution is raised by the
  first \<^verbatim>\<open>next\<close> on that generator, uncaught and before raw generation is asked
  for anything (whatever \<^verbatim>\<open>generate_unmapped_trajectories\<close> would do), and it is
  raised by the call itself in \<^verbatim>\<open>generate_trajectory\<close>.
\<close>

theorem unregistered_name_raises_on_first_next:
  assumes "name \<notin> dom (backmappers self)"
  shows "generate_trajectories len initial_states (Given (Some name)) kwargs
           = Created len initial_states (Some name) kwargs
       \<and> gen_next self (generate_trajectories len initial_states (Given (Some name)) kwargs)
           = (Raise ValueError, Finished)
       \<and> gen_next (self\<lparr>generate_unmapped_trajectories := g\<rparr>)
             (generate_trajectories len initial_states (Given (Some name)) kwargs)
           = (Raise ValueError, Finished)
       \<and> generate_trajectory self len initial_state (Given (Some name)) kwargs = Inl ValueError"
proof -
  have "name \<notin> dom (backmappers (self\<lparr>generate_unmapped_trajectories := g\<rparr>))"
    using assms by simp
  then have "gen_next (self\<lparr>generate_unmapped_trajectories := g\<rparr>)
      (Created len initial_states (Some name) kwargs) = (Raise ValueError, Finished)"
    by (rule gen_next_unresolved)
  moreover have "gen_next self (Created len [initial_state] (Some name) kwargs)
      = (Raise ValueError, Finished)"
    using assms by (rule gen_next_unresolved)
  moreover have "gen_next self (Created len initial_states (Some name) kwargs)
      = (Raise ValueError, Finished)"
    using assms by (rule gen_next_unresolved)
  ultimately show ?thesis
    by (simp add: generate_trajectories_def generate_trajectory_def)
qed

theorem unregistered_name_raises_on_first_next_witness:
  "generate_trajectories 3 [2, 5] (Given (Some ''mirror'')) ()
     = (Created 3 [2, 5] (Some ''mirror'') () :: (nat, nat, unit, nat list) generator)
   \<and> gen_next bare_model (generate_trajectories 3 [2, 5] (Given (Some ''mirror'')) ())
     = (Raise ValueError, Finished)
   \<and> gen_next (bare_model\<lparr>generate_unmapped_trajectories := (\<lambda>len ss kw. Inl TypeError)\<rparr>)
        (generate_trajectories 3 [2, 5] (Given (Some ''mirror'')) ())
     = (Raise ValueError, Finished)
   \<and> generate_trajectory bare_model 3 2 (Given (Some ''mirror'')) () = Inl ValueError"
  using unregistered_name_raises_on_first_next
    [of "''mirror''" bare_model 3 "[2, 5]" "()" "\<lambda>len ss kw. Inl TypeError" 2]
  by (simp add: bare_model_def)

text \<open>
  The claim as worded, that the call of \<^verbatim>\<open>generate_trajectories\<close> with an
  unregistered name raises at the point of the call, fails: here \<open>''mirror''\<close> is
  not registered when the call is made, the call returns a generator, the name is
  registered before the first request, and consuming the generator raises nothing.
\<close>

theorem call_with_unregistered_name_counterexample:
  "get_backmapper bare_model ''mirror'' = Inl ValueError
   \<and> generate_trajectories 3 [2, 5] (Given (Some ''mirror'')) ()
     = (Created 3 [2, 5] (Some ''mirror'') () :: (nat, nat, unit, nat list) generator)
   \<and> fst (add_backmapper bare_model reverse ''mirror'') = Inr ()
   \<and> list_gen (snd (add_backmapper bare_model reverse ''mirror''))
        (generate_trajectories 3 [2, 5] (Given (Some ''mirror'')) ())
     = Inr [[4, 3, 2], [7, 6, 5]]"
proof -
  let ?m1 = "snd (add_backmapper bare_model reverse ''mirror'')"
  have 1: "get_backmapper bare_model ''mirror'' = Inl ValueError"
    by (simp add: get_backmapper_def bare_model_def)
  have 2: "generate_trajectories 3 [2, 5] (Given (Some ''mirror'')) ()
     = (Created 3 [2, 5] (Some ''mirror'') () :: (nat, nat, unit, nat list) generator)"
    by (simp add: generate_trajectories_def)
  have 3: "fst (add_backmapper bare_model reverse ''mirror'') = Inr ()"
    by (simp add: add_backmapper_def bare_model_def)
  have "gen_next ?m1 (Created 3 [2, 5] (Some ''mirror'') ())
      = resume (Some reverse) (raw_of_list [[2, 3, 4], [5, 6, 7]])"
    by (simp add: add_backmapper_def bare_model_def get_backmapper_def count_up_def)
  moreover have "map reverse [[2, 3, 4], [5, 6, 7]] = map Inr [[4, 3, 2], [7, 6, 5]]"
    by (simp add: reverse_def)
  ultimately have "list_gen ?m1 (Created 3 [2, 5] (Some ''mirror'') ())
      = Inr [[4, 3, 2], [7, 6, 5]]"
    by (simp only: list_gen_created list_gen_raw_mapped)
  with 1 2 3 show ?thesis by simp
qed

text \<open>
  Claim C6. \<^verbatim>\<open>generate_trajectory(length, s)\<close> returns the first element that
  \<^verbatim>\<open>generate_trajectories(length, [s])\<close> yields with the same arguments, and
  raises \<^verbatim>\<open>StopIteration\<close> when that generator yields nothing, as it does
  when raw generation yields nothing and the backmapper selection resolves.
\<close>

theorem single_result:
  "(list_gen self (generate_trajectories len [initial_state] backmapper kwargs) = Inr (traj # rest)
      \<longrightarrow> generate_trajectory self len initial_state backmapper kwargs = Inr traj)
   \<and> (fst (gen_next self (generate_trajectories len [initial_state] backmapper kwargs)) = Yield traj
      \<longrightarrow> generate_trajectory self len initial_state backmapper kwargs = Inr traj)
   \<and> (fst (gen_next self (generate_trajectories len [initial_state] backmapper kwargs)) = Stop
      \<longrightarrow> generate_trajectory self len initial_state backmapper kwargs = Inl StopIteration)
   \<and> (list_gen self (generate_trajectories len [initial_state] backmapper kwargs) = Inr []
      \<longrightarrow> generate_trajectory self len initial_state backmapper kwargs = Inl StopIteration)
   \<and> (generate_unmapped_trajectories self len [initial_state] kwargs = Inr Done
        \<and> (bm_value backmapper = None
           \<or> (\<exists>name. bm_value backmapper = Some name \<and> name \<in> dom (backmappers self)))
      \<longrightarrow> generate_trajectory self len initial_state backmapper kwargs = Inl StopIteration)"
proof -
  let ?g = "Created len [initial_state] (bm_value backmapper) kwargs"
  have call: "generate_trajectory self len initial_state backmapper kwargs =
      (case fst (gen_next self ?g) of
         Yield traj \<Rightarrow> Inr traj | Stop \<Rightarrow> Inl StopIteration | Raise e \<Rightarrow> Inl e)"
    by (simp add: generate_trajectory_def generate_trajectories_def)
  have gen: "generate_trajectories len [initial_state] backmapper kwargs = ?g"
    by (simp add: generate_trajectories_def)
  have first: "fst (gen_next self ?g) = Yield traj" if "list_gen self ?g = Inr (traj # rest)"
    using that by (cases "gen_next self ?g")
      (auto simp: list_gen.simps [of self ?g] split: outcome.splits sum.splits)
  have none: "fst (gen_next self ?g) = Stop" if "list_gen self ?g = Inr []"
    using that by (cases "gen_next self ?g")
      (auto simp: list_gen.simps [of self ?g] split: outcome.splits sum.splits)
  have empty: "fst (gen_next self ?g) = Stop"
    if "generate_unmapped_trajectories self len [initial_state] kwargs = Inr Done"
      and "bm_value backmapper = None
         \<or> (\<exists>name. bm_value backmapper = Some name \<and> name \<in> dom (backmappers self))"
    using that by (auto simp: get_backmapper_def)
  show ?thesis
    unfolding gen using first none empty by (auto simp: call)
qed

theorem single_result_witness:
  "list_gen reversing_model (generate_trajectories 3 [2] Omitted ()) = Inr [[4, 3, 2]]
   \<and> fst (gen_next reversing_model (generate_trajectories 3 [2] Omitted ())) = Yield [4, 3, 2]
   \<and> generate_trajectory reversing_model 3 2 Omitted () = Inr [4, 3, 2]
   \<and> fst (gen_next silent_model (generate_trajectories 3 [2] (Given None) ())) = Stop
   \<and> list_gen silent_model (generate_trajectories 3 [2] (Given None) ()) = Inr []
   \<and> generate_trajectory silent_model 3 2 (Given None) () = Inl StopIteration"
proof -
  have step: "gen_next reversing_model (Created 3 [2] (Some ''default'') ())
      = resume (Some reverse) (raw_of_list [[2, 3, 4]])"
    by (simp add: reversing_model_def get_backmapper_def count_up_def)
  have "map reverse [[2, 3, 4]] = map Inr [[4, 3, 2]]" by (simp add: reverse_def)
  then have "list_gen reversing_model (Created 3 [2] (Some ''default'') ()) = Inr [[4, 3, 2]]"
    using step by (simp only: list_gen_created list_gen_raw_mapped)
  then have 1: "list_gen reversing_model (generate_trajectories 3 [2] Omitted ()) = Inr [[4, 3, 2]]"
    by (simp add: generate_trajectories_def)
  have 2: "fst (gen_next reversing_model (generate_trajectories 3 [2] Omitted ())) = Yield [4, 3, 2]"
    by (simp add: generate_trajectories_def reversing_model_def get_backmapper_def count_up_def
          reverse_def)
  have 3: "fst (gen_next silent_model (generate_trajectories 3 [2] (Given None) ())) = Stop"
    by (simp add: generate_trajectories_def silent_model_def)
  have "gen_next silent_model (Created 3 [2] None ()) = (Stop, Finished)"
    by (simp add: silent_model_def)
  then have "list_gen silent_model (Created 3 [2] None ()) = Inr []"
    by (rule list_gen_stop)
  then have 4: "list_gen silent_model (generate_trajectories 3 [2] (Given None) ()) = Inr []"
    by (simp add: generate_trajectories_def)
  note inst = single_result [of reversing_model 3 2 Omitted "()" "[4, 3, 2]" "[]"]
  note inst' = single_result [of silent_model 3 2 "Given None" "()" "[]" "[]"]
  have 5: "generate_trajectory reversing_model 3 2 Omitted () = Inr [4, 3, 2]"
    using inst 1 by simp
  have 6: "generate_trajectory silent_model 3 2 (Given None) () = Inl StopIteration"
    using inst' 3 by simp
  from 1 2 3 4 5 6 show ?thesis by simp
qed

text \<open>
  Claim C9. The parameter \<^verbatim>\<open>backmapper\<close> defaults to the name
  \<^verbatim>\<open>"default"\<close>, not to \<open>None\<close>: on a model with no backmapper of that name,
  \<^verbatim>\<open>generate_trajectories\<close> with default arguments returns a generator whose first
  \<^verbatim>\<open>next\<close> raises \<^verbatim>\<open>ValueError\<close> (so consuming it raises), and
  \<^verbatim>\<open>generate_trajectory\<close> with default arguments raises \<^verbatim>\<open>ValueError\<close>.
\<close>

theorem default_name_not_registered:
  assumes "''default'' \<notin> dom (backmappers self)"
  shows "generate_trajectories len initial_states Omitted kwargs
           = Created len initial_states (Some ''default'') kwargs
       \<and> fst (gen_next self (generate_trajectories len initial_states Omitted kwargs))
           = Raise ValueError
       \<and> list_gen self (generate_trajectories len initial_states Omitted kwargs) = Inl ValueError
       \<and> generate_trajectory self len initial_state Omitted kwargs = Inl ValueError"
proof -
  have "gen_next self (Created len initial_states (Some ''default'') kwargs)
      = (Raise ValueError, Finished)"
    using assms by (rule gen_next_unresolved)
  moreover from this
  have "list_gen self (Created len initial_states (Some ''default'') kwargs) = Inl ValueError"
    by (rule list_gen_raise)
  moreover have "gen_next self (Created len [initial_state] (Some ''default'') kwargs)
      = (Raise ValueError, Finished)"
    using assms by (rule gen_next_unresolved)
  ultimately show ?thesis
    by (simp add: generate_trajectories_def generate_trajectory_def)
qed

theorem default_name_not_registered_witness:
  "generate_trajectories 3 [2, 5] Omitted ()
     = (Created 3 [2, 5] (Some ''default'') () :: (nat, nat, unit, nat list) generator)
   \<and> fst (gen_next bare_model (generate_trajectories 3 [2, 5] Omitted ())) = Raise ValueError
   \<and> list_gen bare_model (generate_trajectories 3 [2, 5] Omitted ()) = Inl ValueError
   \<and> generate_trajectory bare_model 3 2 Omitted () = Inl ValueError"
proof -
  have "''default'' \<notin> dom (backmappers bare_model)" by (simp add: bare_model_def)
  from default_name_not_registered [OF this, of 3 "[2, 5]" "()" 2] show ?thesis .
qed

text \<open>
  Claim C10. The name is resolved once, by the first \<^verbatim>\<open>next\<close>, from the
  registry as it is then and before raw generation is asked for anything. From then on
  the generator does not read the model: whatever states the model goes through between
  the later requests (the named backmapper removed, or replaced), the remaining outcomes
  are the same, and every raw trajectory is mapped by the function found at the first
  request.
\<close>

theorem resolved_once:
  "(gen_next self (generate_trajectories len initial_states backmapper kwargs) = (out, g')
      \<and> length later = length later'
      \<longrightarrow> gen_nexts later g' = gen_nexts later' g')
   \<and> (bm_value backmapper = Some name \<and> backmappers self name = Some f
      \<and> generate_unmapped_trajectories self len initial_states kwargs = Inr (raw_of_list raws)
      \<and> map f raws = map Inr outs \<and> length (self # later) = length raws
      \<longrightarrow> gen_nexts (self # later) (generate_trajectories len initial_states backmapper kwargs)
            = map Yield outs)
   \<and> (bm_value backmapper = Some name \<and> name \<notin> dom (backmappers self)
      \<longrightarrow> gen_next (self\<lparr>generate_unmapped_trajectories := g\<rparr>)
            (generate_trajectories len initial_states backmapper kwargs)
            = (Raise ValueError, Finished))"
proof (intro conjI impI)
  assume "gen_next self (generate_trajectories len initial_states backmapper kwargs) = (out, g')
      \<and> length later = length later'"
  then have "g' = snd (gen_next self (generate_trajectories len initial_states backmapper kwargs))"
    and len: "length later = length later'" by simp_all
  then have "started g'" by (simp only: gen_next_started)
  with len show "gen_nexts later g' = gen_nexts later' g'" by (rule gen_nexts_of_started)
next
  assume a: "bm_value backmapper = Some name \<and> backmappers self name = Some f
      \<and> generate_unmapped_trajectories self len initial_states kwargs = Inr (raw_of_list raws)
      \<and> map f raws = map Inr outs \<and> length (self # later) = length raws"
  then have first: "gen_next self (Created len initial_states (Some name) kwargs)
      = resume (Some f) (raw_of_list raws)"
    by (simp add: get_backmapper_def)
  from a have "gen_nexts (self # later) (Suspended (Some f) (raw_of_list raws)) = map Yield outs"
    by (intro gen_nexts_raw_mapped) simp_all
  with first a
  show "gen_nexts (self # later) (generate_trajectories len initial_states backmapper kwargs)
      = map Yield outs"
    by (simp add: generate_trajectories_def)
next
  assume a: "bm_value backmapper = Some name \<and> name \<notin> dom (backmappers self)"
  then have "name \<notin> dom (backmappers (self\<lparr>generate_unmapped_trajectories := g\<rparr>))"
    by simp
  then have "gen_next (self\<lparr>generate_unmapped_trajectories := g\<rparr>)
      (Created len initial_states (Some name) kwargs) = (Raise ValueError, Finished)"
    by (rule gen_next_unresolved)
  with a show "gen_next (self\<lparr>generate_unmapped_trajectories := g\<rparr>)
      (generate_trajectories len initial_states backmapper kwargs) = (Raise ValueError, Finished)"
    by (simp add: generate_trajectories_def)
qed

theorem resolved_once_witness:
  "gen_nexts [bare_model] (Suspended (Some reverse) (raw_of_list [[5, 6, 7]]))
     = gen_nexts [doubling_model] (Suspended (Some reverse) (raw_of_list [[5, 6, 7]]))
   \<and> remove_backmapper reversing_model ''default'' = (Inr (), bare_model)
   \<and> gen_nexts [reversing_model, bare_model] (generate_trajectories 3 [2, 5] Omitted ())
     = [Yield [4, 3, 2], Yield [7, 6, 5]]"
proof -
  have first: "gen_next reversing_model (generate_trajectories 3 [2, 5] Omitted ())
      = (Yield [4, 3, 2], Suspended (Some reverse) (raw_of_list [[5, 6, 7]]))"
    by (simp add: generate_trajectories_def reversing_model_def get_backmapper_def count_up_def
          reverse_def)
  have removed: "remove_backmapper reversing_model ''default'' = (Inr (), bare_model)"
    by (simp add: remove_backmapper_def reversing_model_def bare_model_def)
  have hyps: "bm_value Omitted = Some ''default''
      \<and> backmappers reversing_model ''default'' = Some reverse
      \<and> generate_unmapped_trajectories reversing_model 3 [2, 5] ()
          = Inr (raw_of_list [[2, 3, 4], [5, 6, 7]])
      \<and> map reverse [[2, 3, 4], [5, 6, 7]] = map Inr [[4, 3, 2], [7, 6, 5]]
      \<and> length [reversing_model, bare_model] = length [[2, 3, 4], [5, 6, 7 :: nat]]"
    by (simp add: reversing_model_def count_up_def reverse_def)
  note inst = resolved_once [of reversing_model 3 "[2, 5]" Omitted "()" "Yield [4, 3, 2]"
      "Suspended (Some reverse) (raw_of_list [[5, 6, 7]])" "[bare_model]" "[doubling_model]"
      "''default''" reverse "[[2, 3, 4], [5, 6, 7]]" "[[4, 3, 2], [7, 6, 5]]" count_up]
  have 1: "gen_nexts [bare_model] (Suspended (Some reverse) (raw_of_list [[5, 6, 7]]))
     = gen_nexts [doubling_model] (Suspended (Some reverse) (raw_of_list [[5, 6, 7]]))"
    using inst first by (elim conjE) simp
  have 2: "gen_nexts [reversing_model, bare_model] (generate_trajectories 3 [2, 5] Omitted ())
     = [Yield [4, 3, 2], Yield [7, 6, 5]]"
    using inst hyps by (elim conjE) simp
  from 1 removed 2 show ?thesis by simp
qed

section \<open>Persistence properties\<close>

text \<open>
  Claim C7. For bytes from which \<^verbatim>\<open>pickle.loads\<close> reconstructs an object,
  \<^verbatim>\<open>cls.deserialize\<close> raises \<^verbatim>\<open>TypeError\<close> if and only if that object is not
  an instance of \<open>cls\<close>, and otherwise returns the object.
\<close>

theorem deserialize_type_check:
  assumes "loads serialized = Inr obj"
  shows "(deserialize loads subclass cls serialized = Inl TypeError
            \<longleftrightarrow> \<not> isinstance subclass obj cls)
       \<and> (isinstance subclass obj cls \<longrightarrow> deserialize loads subclass cls serialized = Inr obj)"
  using assms by (simp add: deserialize_def)

theorem deserialize_type_check_witness:
  "deserialize (\<lambda>b. Inr (OtherObj ''dict'')) (\<lambda>c d. False) ''CountUp'' [128, 4]
     = (Inl TypeError :: exn + (nat, nat, unit, nat list) pyobj)
   \<and> \<not> isinstance (\<lambda>c d. False) (OtherObj ''dict'' :: (nat, nat, unit, nat list) pyobj) ''CountUp''
   \<and> isinstance (\<lambda>c d. c = ''CountUp'' \<and> d = ''SynDModel'') (ModelObj reversing_model) ''SynDModel''
   \<and> deserialize (\<lambda>b. Inr (ModelObj reversing_model))
        (\<lambda>c d. c = ''CountUp'' \<and> d = ''SynDModel'') ''SynDModel'' [128, 4]
     = Inr (ModelObj reversing_model)"
proof -
  have no: "\<not> isinstance (\<lambda>c d. False) (OtherObj ''dict'' :: (nat, nat, unit, nat list) pyobj) ''CountUp''"
    by (simp add: isinstance_def)
  have yes: "isinstance (\<lambda>c d. c = ''CountUp'' \<and> d = ''SynDModel'') (ModelObj reversing_model) ''SynDModel''"
    by (simp add: isinstance_def reversing_model_def)
  have l1: "(\<lambda>b :: bytes. Inr (OtherObj ''dict'') :: exn + (nat, nat, unit, nat list) pyobj) [128, 4]
      = Inr (OtherObj ''dict'')" by simp
  have l2: "(\<lambda>b :: bytes. Inr (ModelObj reversing_model) :: exn + (nat, nat, unit, nat list) pyobj) [128, 4]
      = Inr (ModelObj reversing_model)" by simp
  from deserialize_type_check [OF l1, of "\<lambda>c d. False" "''CountUp''"] no
    deserialize_type_check [OF l2, of "\<lambda>c d. c = ''CountUp'' \<and> d = ''SynDModel''" "''SynDModel''"] yes
  show ?thesis by simp
qed

lemma example_codec: "codec example_dumps example_loads"
  by (simp add: codec_def example_dumps_def example_loads_def)

lemma reversing_not_doubling: "reversing_model \<noteq> doubling_model"
proof
  assume "reversing_model = doubling_model"
  then have "backmappers reversing_model ''default'' = backmappers doubling_model ''default''"
    by simp
  then have "reverse = double" by (simp add: reversing_model_def doubling_model_def)
  then have "reverse [1, 2] = double [1, 2]" by simp
  then show False by (simp add: reverse_def double_def)
qed

text \<open>
  Claim C8, as the code has it. For a model instance \<open>m\<close>, with any registry, that
  \<^verbatim>\<open>pickle.dumps\<close> accepts, \<^verbatim>\<open>type(m).deserialize(m.serialize())\<close> returns
  the object that \<^verbatim>\<open>pickle\<close> reconstructs, which by the contract of \<^verbatim>\<open>pickle\<close>
  is \<open>m\<close> again: the same class, the same names resolving to the same functions, and
  no \<^verbatim>\<open>TypeError\<close> from the instance check, whatever the class hierarchy. When
  \<^verbatim>\<open>pickle.dumps(m)\<close> raises, \<^verbatim>\<open>serialize\<close> raises the same exception and no
  object is produced.
\<close>

theorem round_trip_of_serialized:
  assumes "codec dumps loads"
  shows "(dumps (ModelObj m) = Inr serialized
            \<longrightarrow> round_trip dumps loads subclass (ModelObj m) = Inr (ModelObj m))
       \<and> (dumps (ModelObj m) = Inl e
            \<longrightarrow> round_trip dumps loads subclass (ModelObj m) = Inl e)"
proof (intro conjI impI)
  assume d: "dumps (ModelObj m) = Inr serialized"
  with assms have "loads serialized = Inr (ModelObj m)" by (simp add: codec_def)
  with d show "round_trip dumps loads subclass (ModelObj m) = Inr (ModelObj m)"
    by (simp add: round_trip_def serialize_def deserialize_def isinstance_def)
next
  assume "dumps (ModelObj m) = Inl e"
  then show "round_trip dumps loads subclass (ModelObj m) = Inl e"
    by (simp add: round_trip_def serialize_def)
qed

theorem round_trip_of_serialized_witness:
  "codec example_dumps example_loads
   \<and> example_dumps (ModelObj doubling_model) = Inr [128, 4]
   \<and> round_trip example_dumps example_loads (\<lambda>c d. False) (ModelObj doubling_model)
     = Inr (ModelObj doubling_model)
   \<and> get_backmapper doubling_model ''default'' = Inr double"
proof -
  have d: "example_dumps (ModelObj doubling_model) = Inr [128, 4]"
    by (simp add: example_dumps_def)
  from round_trip_of_serialized [OF example_codec, of doubling_model "[128, 4]" "\<lambda>c d. False"] d
  have "round_trip example_dumps example_loads (\<lambda>c d. False) (ModelObj doubling_model)
     = Inr (ModelObj doubling_model)"
    by simp
  moreover have "get_backmapper doubling_model ''default'' = Inr double"
    by (simp add: get_backmapper_def doubling_model_def)
  ultimately show ?thesis using example_codec d by simp
qed

text \<open>
  The claim as worded, for every model instance, fails at a model that
  \<^verbatim>\<open>pickle.dumps\<close> rejects: the registry of \<open>reversing_model\<close> holds a
  \<^verbatim>\<open>lambda\<close>, \<^verbatim>\<open>serialize\<close> raises, and the round trip produces no object.
\<close>

theorem round_trip_counterexample:
  "codec example_dumps example_loads
   \<and> backmappers reversing_model ''default'' = Some reverse
   \<and> serialize example_dumps (ModelObj reversing_model) = Inl (OtherError ''PicklingError'')
   \<and> round_trip example_dumps example_loads (\<lambda>c d. False) (ModelObj reversing_model)
     = Inl (OtherError ''PicklingError'')"
proof -
  have "backmappers reversing_model ''default'' = Some reverse"
    by (simp add: reversing_model_def)
  moreover have "serialize example_dumps (ModelObj reversing_model) = Inl (OtherError ''PicklingError'')"
    using reversing_not_doubling by (simp add: serialize_def example_dumps_def)
  ultimately show ?thesis using example_codec by (simp add: round_trip_def)
qed

end
